theory Spec2Isabelle
  imports Complex_Main
begin

section \<open>Values, JSON text and errors\<close>

text \<open>
  The functions of this repository handle JavaScript values: MongoDB documents, parsed
  JSON payloads, embedding vectors. A number is \<open>NaN\<close> or a finite value (the infinities
  and the sign of zero are left out). A document is an object, kept as the list of its
  fields in enumeration order (the reordering of integer-like property names is left
  out). A document read from the store can hold driver values that are not JSON values;
  the two that occur in the movies collection are modelled: an ObjectId, by its 24
  character lower-case hex string, and a Date, by its ISO-8601 string.
\<close>

datatype number = NaN | Finite real

datatype jsvalue =
    JSUndefined
  | JSNull
  | JSBoolean bool
  | JSNumber number
  | JSString string
  | JSObjectId string
  | JSDate string
  | JSArray "jsvalue list"
  | JSObject "(string \<times> jsvalue) list"

type_synonym document = "(string \<times> jsvalue) list"

text \<open>
  A JSON text is represented by the JSON value it denotes; a text that is not JSON
  keeps its characters. \<open>JSON.parse\<close> of a text that \<open>JSON.stringify\<close> wrote reads back the
  structure that was written, so nothing below depends on the characters of a JSON text.
\<close>

datatype json =
    JNull
  | JBool bool
  | JNum real
  | JStr string
  | JArr "json list"
  | JObj "(string \<times> json) list"

datatype wire = NotJSON string | JSON json

datatype error =
    Error string
  | ErrorWithCause string error
  | TypeError
  | SyntaxError
  | ClientError string
  | BatchProcessingError "error list"

text \<open>Property read \<open>o.k\<close> and property write \<open>o[k] = v\<close> on the field list of an object.\<close>

fun lookup :: "(string \<times> 'v) list \<Rightarrow> string \<Rightarrow> 'v option" where
  "lookup [] k = None"
| "lookup ((k', v) # kvs) k = (if k' = k then Some v else lookup kvs k)"

fun obj_set :: "(string \<times> 'v) list \<Rightarrow> string \<Rightarrow> 'v \<Rightarrow> (string \<times> 'v) list" where
  "obj_set [] k v = [(k, v)]"
| "obj_set ((k', v') # kvs) k v =
     (if k' = k then (k, v) # kvs else (k', v') # obj_set kvs k v)"

definition has_field :: "(string \<times> 'v) list \<Rightarrow> string \<Rightarrow> bool" where
  "has_field kvs k = (lookup kvs k \<noteq> None)"

definition nullish :: "jsvalue \<Rightarrow> bool" where
  "nullish v = (v = JSUndefined \<or> v = JSNull)"

text \<open>
  \<open>v.k\<close> for a value \<open>v\<close> that is neither \<open>undefined\<close> nor \<open>null\<close>, and a name \<open>k\<close> that no
  prototype defines (the names read below are \<open>detail\<close>, \<open>documentKey\<close>, \<open>fullDocument\<close>,
  \<open>_id\<close>, \<open>plot\<close>, \<open>embedding\<close> and \<open>query\<close>): the field of an object, \<open>undefined\<close> when the
  object has no such field or the value is not an object.
\<close>

definition property :: "jsvalue \<Rightarrow> string \<Rightarrow> jsvalue" where
  "property v k =
     (case v of
        JSObject kvs \<Rightarrow> (case lookup kvs k of None \<Rightarrow> JSUndefined | Some x \<Rightarrow> x)
      | _ \<Rightarrow> JSUndefined)"


text \<open>
  \<open>JSON.stringify\<close>: \<open>undefined\<close> has no JSON text, is dropped from an object and becomes
  \<open>null\<close> in an array; \<open>NaN\<close> becomes \<open>null\<close>; an ObjectId and a Date are written through
  their \<open>toJSON\<close>, as a string.
\<close>

primrec toJSON :: "jsvalue \<Rightarrow> json option" where
  "toJSON JSUndefined = None"
| "toJSON JSNull = Some JNull"
| "toJSON (JSBoolean b) = Some (JBool b)"
| "toJSON (JSNumber n) = Some (case n of NaN \<Rightarrow> JNull | Finite r \<Rightarrow> JNum r)"
| "toJSON (JSString s) = Some (JStr s)"
| "toJSON (JSObjectId h) = Some (JStr h)"
| "toJSON (JSDate t) = Some (JStr t)"
| "toJSON (JSArray xs) =
     Some (JArr (map (\<lambda>r. case r of None \<Rightarrow> JNull | Some j \<Rightarrow> j) (map toJSON xs)))"
| "toJSON (JSObject kvs) =
     Some (JObj (List.map_filter (\<lambda>(k, r). map_option (Pair k) r)
                   (map (map_prod id toJSON) kvs)))"

definition JSON_stringify :: "jsvalue \<Rightarrow> wire option" where
  "JSON_stringify v = map_option JSON (toJSON v)"

text \<open>\<open>JSON.parse\<close>: a repeated member name keeps its first place and its last value.\<close>

primrec fromJSON :: "json \<Rightarrow> jsvalue" where
  "fromJSON JNull = JSNull"
| "fromJSON (JBool b) = JSBoolean b"
| "fromJSON (JNum r) = JSNumber (Finite r)"
| "fromJSON (JStr s) = JSString s"
| "fromJSON (JArr js) = JSArray (map fromJSON js)"
| "fromJSON (JObj kvs) =
     JSObject (foldl (\<lambda>acc (k, v). obj_set acc k v) [] (map (map_prod id fromJSON) kvs))"

definition JSON_parse :: "wire \<Rightarrow> error + jsvalue" where
  "JSON_parse t = (case t of NotJSON s \<Rightarrow> Inl SyntaxError | JSON j \<Rightarrow> Inr (fromJSON j))"


text \<open>
  The rest pattern \<open>{ _id, ...document } = v\<close> for a value \<open>v\<close> that is neither \<open>undefined\<close>
  nor \<open>null\<close>: the own enumerable properties of \<open>v\<close> but \<open>_id\<close>. An array and a string
  have their elements under the decimal indices, a number and a boolean have none.
\<close>

fun decimal :: "nat \<Rightarrow> string" where
  "decimal n = (if n < 10 then [char_of (48 + n)] else decimal (n div 10) @ [char_of (48 + n mod 10)])"

declare decimal.simps [simp del]

definition rest_without :: "jsvalue \<Rightarrow> string \<Rightarrow> document" where
  "rest_without v k =
     (case v of
        JSObject kvs \<Rightarrow> filter (\<lambda>(k', x). k' \<noteq> k) kvs
      | JSArray xs \<Rightarrow> zip (map decimal [0..<length xs]) xs
      | JSString s \<Rightarrow> zip (map decimal [0..<length s]) (map (\<lambda>c. JSString [c]) s)
      | _ \<Rightarrow> [])"

text \<open>
  What the driver writes for a JavaScript value (with its default \<open>ignoreUndefined: false\<close>):
  \<open>undefined\<close> is stored as \<open>null\<close>.
\<close>

primrec toBSON :: "jsvalue \<Rightarrow> jsvalue" where
  "toBSON JSUndefined = JSNull"
| "toBSON JSNull = JSNull"
| "toBSON (JSBoolean b) = JSBoolean b"
| "toBSON (JSNumber n) = JSNumber n"
| "toBSON (JSString s) = JSString s"
| "toBSON (JSObjectId h) = JSObjectId h"
| "toBSON (JSDate t) = JSDate t"
| "toBSON (JSArray xs) = JSArray (map toBSON xs)"
| "toBSON (JSObject kvs) = JSObject (map (map_prod id toBSON) kvs)"

definition serialize :: "document \<Rightarrow> document" where
  "serialize d = map (map_prod id toBSON) d"

text \<open>
  \<open>parseInt(string)\<close> with no radix: leading white space is skipped, a sign is read, a
  prefix \<open>0x\<close> selects radix 16, the longest prefix of digits is the result and what
  follows it is ignored; no digit at all gives \<open>NaN\<close>. (The characters are bytes: the
  white space beyond ASCII is left out, and so is the rounding of an integer beyond
  \<open>2^53\<close> to a double.)
\<close>

definition isStrWhiteSpaceChar :: "char \<Rightarrow> bool" where
  "isStrWhiteSpaceChar c = ((of_char c :: nat) \<in> {9, 10, 11, 12, 13, 32})"

definition digitValue :: "char \<Rightarrow> nat option" where
  "digitValue c =
     (let n = (of_char c :: nat)
      in if 48 \<le> n \<and> n \<le> 57 then Some (n - 48)
         else if 97 \<le> n \<and> n \<le> 122 then Some (n - 87)
         else if 65 \<le> n \<and> n \<le> 90 then Some (n - 55)
         else None)"

fun radixDigits :: "nat \<Rightarrow> string \<Rightarrow> nat list" where
  "radixDigits R [] = []"
| "radixDigits R (c # cs) =
     (case digitValue c of
        None \<Rightarrow> []
      | Some v \<Rightarrow> if v < R then v # radixDigits R cs else [])"

definition parseInt :: "string \<Rightarrow> number" where
  "parseInt inputString =
     (let S = dropWhile isStrWhiteSpaceChar inputString;
          sign = (if take 1 S = ''-'' then - 1 else 1 :: int);
          S1 = (if take 1 S = ''+'' \<or> take 1 S = ''-'' then drop 1 S else S);
          stripPrefix = (take 2 S1 = ''0x'' \<or> take 2 S1 = ''0X'');
          R = (if stripPrefix then 16 else 10);
          S2 = (if stripPrefix then drop 2 S1 else S1);
          Z = radixDigits R S2
      in if Z = [] then NaN
         else Finite (of_int (sign * int (foldl (\<lambda>a d. a * R + d) 0 Z))))"

section \<open>The collaborators: queue, embedding model, document store\<close>

record sqs_entry =
  EntryId :: string
  MessageBody :: "wire option"

text \<open>A condition of a query on one field, and a query: one condition per field.\<close>

datatype condition = Exists bool | Equals jsvalue

type_synonym query = "(string \<times> condition) list"

text \<open>The calls to the embedding model and to the store, as they are made.\<close>

datatype call =
    InvokeModel "wire option"
  | Find query number
  | ReplaceOne query document
  | Aggregate string jsvalue string nat

text \<open>
  What the functions can observe of the outside during one invocation and do not
  decide themselves:
  \<^item> the UUID generator (the \<open>n\<close>-th UUID drawn);
  \<^item> the two environment variables and the secret store;
  \<^item> whether the queue accepts a batch (\<open>None\<close>) or the send throws;
  \<^item> what the embedding model answers to a request body: a thrown error, or the
    status code and the body of the response;
  \<^item> the error of every operation on the collection when the cluster cannot be reached;
  \<^item> what the store answers to a \<open>find\<close> whose limit is not a non-negative integer;
  \<^item> what the driver's \<open>ObjectId\<close> constructor makes of an argument that is not a string
    of 24 hex digits;
  \<^item> the search index: for an index name, a path and a query vector, an error or the
    similarity score of every document the index holds under that path;
  \<^item> the constant \<open>MONGODB_SEARCH_INDEX_NAME\<close> of \<open>commons/constants\<close>.
\<close>

record services =
  randomUUID :: "nat \<Rightarrow> string"
  EVENTS_QUEUE_URL :: "string option"
  MONGODB_CONNECTION_STRING_SECRET_NAME :: "string option"
  getSecret :: "string \<Rightarrow> error + string option"
  sqs :: "sqs_entry list \<Rightarrow> error option"
  bedrock :: "wire option \<Rightarrow> error + (int \<times> wire option)"
  mongo :: "error option"
  irregularLimit :: "number \<Rightarrow> document list \<Rightarrow> error + document list"
  irregularObjectId :: "jsvalue \<Rightarrow> error + jsvalue"
  vectorIndex :: "string \<Rightarrow> string \<Rightarrow> jsvalue \<Rightarrow> error + (document \<Rightarrow> real option)"
  MONGODB_SEARCH_INDEX_NAME :: string

text \<open>
  The state the functions change: the movies collection, the batches the queue has
  accepted, the number of UUIDs drawn, whether the module holds a MongoDB client
  already, and the calls made so far (oldest first).
\<close>

record world =
  collection :: "document list"
  queue :: "sqs_entry list list"
  uuids :: nat
  mongoClient :: bool
  calls :: "call list"

subsection \<open>commons/helpers\<close>

definition getStringFromEnv :: "string option \<Rightarrow> string \<Rightarrow> error + string" where
  "getStringFromEnv val name =
     (case val of
        None \<Rightarrow> Inl (Error (name @ '' is not set''))
      | Some v \<Rightarrow> if v = [] then Inl (Error (name @ '' is not set'')) else Inr v)"

text \<open>The client is created on the first call and kept for the later ones.\<close>

definition getMongoCollection :: "services \<Rightarrow> world \<Rightarrow> (error + unit) \<times> world" where
  "getMongoCollection sv w =
     (if mongoClient w then (Inr (), w)
      else case getStringFromEnv (MONGODB_CONNECTION_STRING_SECRET_NAME sv)
                  ''MONGODB_CONNECTION_STRING_SECRET_NAME'' of
             Inl e \<Rightarrow> (Inl e, w)
           | Inr mongoDBSecretName \<Rightarrow>
               (case getSecret sv mongoDBSecretName of
                  Inl e \<Rightarrow> (Inl e, w)
                | Inr None \<Rightarrow> (Inl (Error ''MongoDB connection string not found''), w)
                | Inr (Some url) \<Rightarrow> (Inr (), w\<lparr>mongoClient := True\<rparr>)))"

text \<open>
  \<open>createEmbedding\<close> (exported as \<open>getEmbedding\<close>): the request body is
  \<open>JSON.stringify({ inputText })\<close>; a status other than 200 or a missing body is an error;
  the result is the field \<open>embedding\<close> of the parsed body, whatever it is.
\<close>

definition createEmbedding ::
  "services \<Rightarrow> jsvalue \<Rightarrow> world \<Rightarrow> (error + jsvalue) \<times> world" where
  "createEmbedding sv inputText w =
     (let request = JSON_stringify (JSObject [(''inputText'', inputText)]);
          w' = w\<lparr>calls := calls w @ [InvokeModel request]\<rparr>
      in case bedrock sv request of
           Inl e \<Rightarrow> (Inl e, w')
         | Inr (httpStatusCode, body) \<Rightarrow>
             (case body of
                None \<Rightarrow> (Inl (Error ''Error in model response''), w')
              | Some b \<Rightarrow>
                  if httpStatusCode \<noteq> 200 then (Inl (Error ''Error in model response''), w')
                  else (case JSON_parse b of
                          Inl e \<Rightarrow> (Inl e, w')
                        | Inr parsed \<Rightarrow>
                            if nullish parsed then (Inl TypeError, w')
                            else (Inr (property parsed ''embedding''), w'))))"

definition sendMessagesToQueue ::
  "services \<Rightarrow> sqs_entry list \<Rightarrow> world \<Rightarrow> (error + unit) \<times> world" where
  "sendMessagesToQueue sv batch w =
     (case getStringFromEnv (EVENTS_QUEUE_URL sv) ''EVENTS_QUEUE_URL'' of
        Inl e \<Rightarrow> (Inl e, w)
      | Inr queueUrl \<Rightarrow>
          (case sqs sv batch of
             Some e \<Rightarrow> (Inl e, w)
           | None \<Rightarrow> (Inr (), w\<lparr>queue := queue w @ [batch]\<rparr>)))"

subsection \<open>The operations of the document store\<close>

text \<open>
  \<open>{ f: { $exists: b } }\<close> holds of a document when it has the field \<open>f\<close> (whatever its
  value) exactly if \<open>b\<close>; \<open>{ f: v }\<close> holds when its field \<open>f\<close> is \<open>v\<close>.
\<close>

fun holds :: "condition \<Rightarrow> jsvalue option \<Rightarrow> bool" where
  "holds (Exists b) x = ((x \<noteq> None) = b)"
| "holds (Equals v) x = (x = Some v)"

definition matches :: "query \<Rightarrow> document \<Rightarrow> bool" where
  "matches q d = list_all (\<lambda>(f, c). holds c (lookup d f)) q"

text \<open>
  \<open>cursor.limit(n)\<close>: a positive integer caps the result, 0 is no limit; the answer to
  any other limit is the store's own.
\<close>

definition limited :: "services \<Rightarrow> number \<Rightarrow> document list \<Rightarrow> error + document list" where
  "limited sv n docs =
     (case n of
        NaN \<Rightarrow> irregularLimit sv n docs
      | Finite r \<Rightarrow>
          if r = of_int \<lfloor>r\<rfloor> \<and> 0 \<le> r
          then (if r = 0 then Inr docs else Inr (take (nat \<lfloor>r\<rfloor>) docs))
          else irregularLimit sv n docs)"

definition find_limit_toArray ::
  "services \<Rightarrow> query \<Rightarrow> number \<Rightarrow> world \<Rightarrow> (error + document list) \<times> world" where
  "find_limit_toArray sv q n w =
     (let w' = w\<lparr>calls := calls w @ [Find q n]\<rparr>
      in case mongo sv of
           Some e \<Rightarrow> (Inl e, w')
         | None \<Rightarrow> (limited sv n (filter (matches q) (collection w')), w'))"

text \<open>
  \<open>replaceOne(q, replacement)\<close> on the first document that matches. The store compares
  the stored document with the replacement as it is sent: when they are equal nothing
  changes and the document counts as not modified. Otherwise a replacement without
  \<open>_id\<close> keeps the stored \<open>_id\<close>, in front, and one with another \<open>_id\<close> is refused. The
  result is \<open>modifiedCount\<close>. (The driver's check of the replacement's field names is
  left out.)
\<close>

fun replaceFirst ::
  "query \<Rightarrow> document \<Rightarrow> document list \<Rightarrow> (error + nat) \<times> document list" where
  "replaceFirst q r [] = (Inr 0, [])"
| "replaceFirst q r (d # ds) =
     (if matches q d
      then (if d = r then (Inr 0, d # ds)
            else case lookup r ''_id'' of
                   None \<Rightarrow>
                     (Inr 1, (filter (\<lambda>(k, x). k = ''_id'') d @ r) # ds)
                 | Some i \<Rightarrow>
                     if lookup d ''_id'' = Some i then (Inr 1, r # ds)
                     else (Inl (ClientError ''the (immutable) field _id was found to have been altered''),
                           d # ds))
      else (case replaceFirst q r ds of (res, ds') \<Rightarrow> (res, d # ds')))"

definition replaceOne ::
  "services \<Rightarrow> query \<Rightarrow> document \<Rightarrow> world \<Rightarrow> (error + nat) \<times> world" where
  "replaceOne sv q replacement w =
     (let w' = w\<lparr>calls := calls w @ [ReplaceOne q replacement]\<rparr>
      in case mongo sv of
           Some e \<Rightarrow> (Inl e, w')
         | None \<Rightarrow>
             (case replaceFirst q (serialize replacement) (collection w') of
                (res, c) \<Rightarrow> (res, w'\<lparr>collection := c\<rparr>)))"



text \<open>
  \<open>new ObjectId(id)\<close>: a string of 24 hex digits denotes the ObjectId of these digits.
\<close>

definition isHexDigit :: "char \<Rightarrow> bool" where
  "isHexDigit c = (case digitValue c of None \<Rightarrow> False | Some v \<Rightarrow> v < 16)"

definition lowerCase :: "char \<Rightarrow> char" where
  "lowerCase c =
     (let n = (of_char c :: nat) in if 65 \<le> n \<and> n \<le> 90 then char_of (n + 32) else c)"

definition ObjectId :: "services \<Rightarrow> jsvalue \<Rightarrow> error + jsvalue" where
  "ObjectId sv inputId =
     (case inputId of
        JSString s \<Rightarrow>
          if length s = 24 \<and> list_all isHexDigit s then Inr (JSObjectId (map lowerCase s))
          else irregularObjectId sv inputId
      | _ \<Rightarrow> irregularObjectId sv inputId)"

section \<open>functions/createInitialEmbeddings: the backfill dispatcher\<close>

definition candidates :: query where
  "candidates = [(''plot'', Exists True), (''plot_embedding'', Exists False)]"

definition readDocuments ::
  "services \<Rightarrow> number \<Rightarrow> world \<Rightarrow> (error + document list) \<times> world" where
  "readDocuments sv count w =
     (case getMongoCollection sv w of
        (Inl e, w') \<Rightarrow> (Inl e, w')
      | (Inr u, w') \<Rightarrow> find_limit_toArray sv candidates count w')"

text \<open>The queue message of one document; \<open>u\<close> is the number of UUIDs drawn before it.\<close>

definition message :: "services \<Rightarrow> nat \<Rightarrow> document \<Rightarrow> sqs_entry" where
  "message sv u d =
     \<lparr>EntryId = randomUUID sv u,
      MessageBody = JSON_stringify (JSObject
        [(''version'', JSString ''0''),
         (''id'', JSString (randomUUID sv (u + 1))),
         (''detail-type'', JSString ''MongoDB Database Trigger for sample_mflix.movies''),
         (''detail'', JSObject
            [(''operationType'', JSString ''update''),
             (''fullDocument'', JSObject d),
             (''documentKey'', JSObject [(''_id'', property (JSObject d) ''_id'')])])])\<rparr>"

text \<open>
  The loop of \<open>sendToQueueInBatches\<close>: \<open>sentCount\<close> and \<open>batch\<close> are its two variables.
  A failed send raises out of the loop; what was sent before stays sent.
\<close>

fun send_loop ::
  "services \<Rightarrow> int \<Rightarrow> document list \<Rightarrow> nat \<Rightarrow> sqs_entry list \<Rightarrow> world \<Rightarrow> (error + nat) \<times> world" where
  "send_loop sv batchSize [] sentCount batch w = (Inr sentCount, w)"
| "send_loop sv batchSize (d # ds) sentCount batch w =
     (let batch' = batch @ [message sv (uuids w) d];
          w' = w\<lparr>uuids := uuids w + 2\<rparr>
      in if int (length batch') = batchSize
         then (case sendMessagesToQueue sv batch' w' of
                 (Inl e, w'') \<Rightarrow> (Inl e, w'')
               | (Inr u, w'') \<Rightarrow> send_loop sv batchSize ds (sentCount + length batch') [] w'')
         else send_loop sv batchSize ds sentCount batch' w')"

text \<open>The parameter \<open>batchSize\<close> is optional and defaults to 10.\<close>

definition sendToQueueInBatches ::
  "services \<Rightarrow> document list \<Rightarrow> int option \<Rightarrow> world \<Rightarrow> (error + nat) \<times> world" where
  "sendToQueueInBatches sv documents batchSize w =
     send_loop sv (case batchSize of None \<Rightarrow> 10 | Some b \<Rightarrow> b) documents 0 [] w"

text \<open>The messages of a list of documents, in order, from UUID number \<open>u\<close> on.\<close>

fun messages :: "services \<Rightarrow> nat \<Rightarrow> document list \<Rightarrow> sqs_entry list" where
  "messages sv u [] = []"
| "messages sv u (d # ds) = message sv u d # messages sv (u + 2) ds"

text \<open>
  The handler of the backfill trigger. Of the event it reads the query string
  parameters (absent, or a list of names and values). It returns a response with status
  200 or raises the error of the step that failed.
\<close>

record api_response =
  statusCode :: int
  responseBody :: "wire option"

definition limit_argument :: "(string \<times> string) list option \<Rightarrow> number" where
  "limit_argument queryStringParameters =
     (case lookup (case queryStringParameters of None \<Rightarrow> [] | Some ps \<Rightarrow> ps) ''count'' of
        None \<Rightarrow> Finite 50
      | Some count \<Rightarrow> if count \<noteq> [] then parseInt count else Finite 50)"

definition createInitialEmbeddings_handler ::
  "services \<Rightarrow> (string \<times> string) list option \<Rightarrow> world \<Rightarrow> (error + api_response) \<times> world" where
  "createInitialEmbeddings_handler sv queryStringParameters w =
     (case readDocuments sv (limit_argument queryStringParameters) w of
        (Inl e, w') \<Rightarrow> (Inl e, w')
      | (Inr documents, w') \<Rightarrow>
          (case sendToQueueInBatches sv documents None w' of
             (Inl e, w'') \<Rightarrow> (Inl e, w'')
           | (Inr sentCount, w'') \<Rightarrow>
               (Inr \<lparr>statusCode = 200,
                     responseBody = JSON_stringify (JSObject
                       [(''read'', JSNumber (Finite (of_nat (length documents)))),
                        (''sent'', JSNumber (Finite (of_nat sentCount)))])\<rparr>, w'')))"

section \<open>functions/embed: the batch consumer\<close>

record sqs_record =
  messageId :: string
  body :: wire

definition writeEmbedding ::
  "services \<Rightarrow> jsvalue \<Rightarrow> document \<Rightarrow> world \<Rightarrow> (error + unit) \<times> world" where
  "writeEmbedding sv id' fullDocument w =
     (case getMongoCollection sv w of
        (Inl e, w') \<Rightarrow> (Inl e, w')
      | (Inr u, w') \<Rightarrow>
          (case ObjectId sv id' of
             Inl e \<Rightarrow> (Inl e, w')
           | Inr oid \<Rightarrow>
               (case replaceOne sv [(''_id'', Equals oid)] fullDocument w' of
                  (Inl e, w'') \<Rightarrow> (Inl e, w'')
                | (Inr modifiedCount, w'') \<Rightarrow>
                    if modifiedCount \<noteq> 1 then (Inl (Error ''Unable to update document''), w'')
                    else (Inr (), w''))))"

text \<open>
  The destructuring
  \<open>const { documentKey: { _id: id }, fullDocument: { _id, ...document } } = payload.detail\<close>:
  a \<open>TypeError\<close> when \<open>payload\<close>, \<open>payload.detail\<close>, \<open>documentKey\<close> or \<open>fullDocument\<close> is
  \<open>undefined\<close> or \<open>null\<close>; otherwise \<open>id\<close> and \<open>document\<close>.
\<close>

definition destructure :: "jsvalue \<Rightarrow> error + (jsvalue \<times> document)" where
  "destructure payload =
     (if nullish payload then Inl TypeError
      else let detail = property payload ''detail''
           in if nullish detail then Inl TypeError
              else let documentKey = property detail ''documentKey'';
                       fullDocument = property detail ''fullDocument''
                   in if nullish documentKey \<or> nullish fullDocument then Inl TypeError
                      else Inr (property documentKey ''_id'', rest_without fullDocument ''_id''))"

text \<open>
  \<open>recordHandler\<close>, with the value that \<open>lambdaContext.getRemainingTimeInMillis()\<close> returns
  when it is called. Every error is logged and thrown again; the result is the error
  thrown, or nothing.
\<close>

definition recordHandler ::
  "services \<Rightarrow> sqs_record \<Rightarrow> int \<Rightarrow> world \<Rightarrow> (error + unit) \<times> world" where
  "recordHandler sv record remainingTimeInMillis w =
     (if remainingTimeInMillis < 1000
      then (Inl (Error ''Time is about to expire, stopping processing''), w)
      else case JSON_parse (body record) of
             Inl e \<Rightarrow> (Inl (ErrorWithCause ''Unable to parse SQS record'' e), w)
           | Inr payload \<Rightarrow>
               (case destructure payload of
                  Inl e \<Rightarrow> (Inl e, w)
                | Inr (id', document) \<Rightarrow>
                    (case createEmbedding sv (property (JSObject document) ''plot'') w of
                       (Inl e, w') \<Rightarrow> (Inl (ErrorWithCause ''Unble to create embedding'' e), w')
                     | (Inr embedding, w') \<Rightarrow>
                         (case writeEmbedding sv id'
                                 (obj_set document ''plot_embedding'' embedding) w' of
                            (Inl e, w'') \<Rightarrow>
                              (Inl (ErrorWithCause ''Unable to write embedding'' e), w'')
                          | (Inr u, w'') \<Rightarrow> (Inr (), w'')))))"

text \<open>
  The batch utility \<open>processPartialResponse\<close> with a \<open>BatchProcessor\<close> for SQS: the record
  handler runs on every record of the event, an error it throws is caught and kept with
  the record's message identifier. When no record failed the response has no item
  failures; when every record failed the utility throws instead of responding;
  otherwise the response lists the message identifiers of the failed records.
  \<open>remaining i\<close> is the remaining time that the \<open>i\<close>-th record reads; the records are
  taken one after the other.
\<close>

fun process ::
  "services \<Rightarrow> (nat \<Rightarrow> int) \<Rightarrow> nat \<Rightarrow> sqs_record list \<Rightarrow> world
     \<Rightarrow> (string \<times> (error + unit)) list \<times> world" where
  "process sv remaining i [] w = ([], w)"
| "process sv remaining i (r # rs) w =
     (case recordHandler sv r (remaining i) w of
        (res, w') \<Rightarrow>
          (case process sv remaining (Suc i) rs w' of
             (out, w'') \<Rightarrow> ((messageId r, res) # out, w'')))"




section \<open>functions/search: the vector query service\<close>





section \<open>Notions used in the properties\<close>

text \<open>
  What a record handler can tell of the state it runs in: the keys of the stored
  documents, and whether the collection can be obtained.
\<close>

definition stored_ids :: "world \<Rightarrow> jsvalue option list" where
  "stored_ids w = map (\<lambda>d. lookup d ''_id'') (collection w)"

definition reachable :: "services \<Rightarrow> world \<Rightarrow> error + unit" where
  "reachable sv w = fst (getMongoCollection sv w)"



section \<open>Sample data\<close>

text \<open>A search index that knows four movies.\<close>

definition demo_score :: "document \<Rightarrow> real option" where
  "demo_score d =
     (if has_field d ''plot_embedding''
      then (case lookup d ''_id'' of
              Some (JSObjectId h) \<Rightarrow>
                if h = ''573a1398f29313caabcea388'' then Some 0.71
                else if h = ''573a1397f29313caabce879f'' then Some 0.68
                else if h = ''573a1394f29313caabcdf0a6'' then Some 0.69
                else Some 0.25
            | _ \<Rightarrow> None)
      else None)"

definition demo_services :: services where
  "demo_services =
     \<lparr>randomUUID = (\<lambda>n. ''uuid-'' @ replicate n CHR ''i''),
      EVENTS_QUEUE_URL = Some ''https://sqs.us-east-1.amazonaws.com/1/events'',
      MONGODB_CONNECTION_STRING_SECRET_NAME = Some ''mongodb'',
      getSecret = (\<lambda>n. Inr (Some ''mongodb+srv://cluster'')),
      sqs = (\<lambda>b. None),
      bedrock = (\<lambda>request.
        if request = Some (JSON (JObj [(''inputText'', JStr ''A coach.'')]))
           \<or> request = Some (JSON (JObj [(''inputText'', JStr ''sports'')]))
        then Inr (200, Some (JSON (JObj [(''embedding'', JArr [JNum 0.5, JNum (- 0.25)])])))
        else Inl (ClientError ''ValidationException'')),
      mongo = None,
      irregularLimit = (\<lambda>n docs. Inl (ClientError ''limit'')),
      irregularObjectId = (\<lambda>v. Inl (ClientError ''BSONError'')),
      vectorIndex = (\<lambda>index path v.
        if index = ''default'' \<and> path = ''plot_embedding''
           \<and> v = JSArray [JSNumber (Finite 0.5), JSNumber (Finite (- 0.25))]
        then Inr demo_score
        else Inl (ClientError ''search failed'')),
      MONGODB_SEARCH_INDEX_NAME = ''default''\<rparr>"

definition movie :: "string \<Rightarrow> document" where
  "movie h = [(''_id'', JSObjectId h), (''title'', JSString ''Wildcats''), (''plot'', JSString ''A coach.'')]"

text \<open>A collection of seven candidates.\<close>

definition seven_world :: world where
  "seven_world =
     \<lparr>collection = map (\<lambda>c. movie (''573a1398f29313caabcea38'' @ [c])) ''0123456'',
      queue = [], uuids = 0, mongoClient = False, calls = []\<rparr>"

definition empty_world :: world where
  "empty_world = \<lparr>collection = [], queue = [], uuids = 0, mongoClient = False, calls = []\<rparr>"

definition embedded_movie :: "string \<Rightarrow> document" where
  "embedded_movie h =
     movie h @ [(''plot_embedding'', JSArray [JSNumber (Finite 0.5), JSNumber (Finite (- 0.25))])]"

definition untold_movie :: "string \<Rightarrow> document" where
  "untold_movie h = [(''_id'', JSObjectId h), (''title'', JSString ''Pat and Mike'')]"

definition demo_world :: world where
  "demo_world =
     \<lparr>collection =
        [movie ''573a1398f29313caabcea388'',
         embedded_movie ''573a1397f29313caabce879f'',
         untold_movie ''573a1394f29313caabcdf0a6'',
         movie ''573a1390f29313caabcd4135''],
      queue = [], uuids = 0, mongoClient = False, calls = []\<rparr>"

definition change_event :: "string \<Rightarrow> string \<Rightarrow> wire" where
  "change_event h plot =
     JSON (JObj
       [(''version'', JStr ''0''),
        (''id'', JStr ''5d0a1e51-7a3c-4e0c-9a39-0c8e3d2f6b11''),
        (''detail-type'', JStr ''MongoDB Database Trigger for sample_mflix.movies''),
        (''detail'', JObj
           [(''operationType'', JStr ''update''),
            (''fullDocument'', JObj
               [(''_id'', JStr h), (''title'', JStr ''Wildcats''), (''plot'', JStr plot)]),
            (''documentKey'', JObj [(''_id'', JStr h)])])])"

definition demo_records :: "sqs_record list" where
  "demo_records =
     [\<lparr>messageId = ''m1'', body = change_event ''573a1398f29313caabcea388'' ''A coach.''\<rparr>,
      \<lparr>messageId = ''m2'', body = change_event ''573a1397f29313caabce879f'' ''Unknown.''\<rparr>,
      \<lparr>messageId = ''m3'', body = change_event ''573a1390f29313caabcd4135'' ''A coach.''\<rparr>]"




section \<open>Facts about the collaborators\<close>

lemma getMongoCollection_Inr:
  "fst (getMongoCollection sv w) = Inr () \<Longrightarrow>
   getMongoCollection sv w = (Inr (), w\<lparr>mongoClient := True\<rparr>)"
  by (cases w) (auto simp: getMongoCollection_def split: if_splits sum.splits option.splits)

lemma getMongoCollection_Inl:
  "fst (getMongoCollection sv w) = Inl e \<Longrightarrow> getMongoCollection sv w = (Inl e, w)"
  by (auto simp: getMongoCollection_def split: if_splits sum.splits option.splits)

lemma matches_candidates:
  "matches candidates d = (has_field d ''plot'' \<and> \<not> has_field d ''plot_embedding'')"
  by (simp add: matches_def candidates_def has_field_def)

lemma limited_positive:
  "0 < n \<Longrightarrow> limited sv (Finite (of_int n)) docs = Inr (take (nat n) docs)"
  by (simp add: limited_def)

section \<open>Properties of the backfill dispatcher\<close>

lemma sendMessagesToQueue_reliable:
  assumes "EVENTS_QUEUE_URL sv = Some url" "url \<noteq> []" "sqs sv b = None"
  shows "sendMessagesToQueue sv b w = (Inr (), w\<lparr>queue := queue w @ [b]\<rparr>)"
  using assms by (simp add: sendMessagesToQueue_def getStringFromEnv_def)

lemma send_loop_reliable:
  assumes url: "EVENTS_QUEUE_URL sv = Some url" "url \<noteq> []"
    and ok: "\<And>b. sqs sv b = None"
    and n: "0 < n"
  shows "length batch < n \<Longrightarrow>
    \<exists>w' bs. send_loop sv (int n) ds sent batch w
               = (Inr (sent + n * ((length batch + length ds) div n)), w')
      \<and> uuids w' = uuids w + 2 * length ds
      \<and> collection w' = collection w
      \<and> queue w' = queue w @ bs
      \<and> length bs = (length batch + length ds) div n
      \<and> (\<forall>b \<in> set bs. length b = n)
      \<and> concat bs = take (n * ((length batch + length ds) div n))
                        (batch @ messages sv (uuids w) ds)"
proof (induction ds arbitrary: sent batch w)
  case Nil
  then show ?case by simp
next
  case (Cons d ds)
  let ?m = "message sv (uuids w) d"
  let ?w = "w\<lparr>uuids := uuids w + 2\<rparr>"
  show ?case
  proof (cases "Suc (length batch) = n")
    case True
    let ?w2 = "?w\<lparr>queue := queue ?w @ [batch @ [?m]]\<rparr>"
    have snd: "sendMessagesToQueue sv (batch @ [?m]) ?w = (Inr (), ?w2)"
      by (rule sendMessagesToQueue_reliable[OF url ok])
    from Cons.IH[of "[]" "sent + length (batch @ [?m])" ?w2] n
    obtain w' bs where
      r: "send_loop sv (int n) ds (sent + length (batch @ [?m])) [] ?w2
            = (Inr (sent + length (batch @ [?m]) + n * (length ds div n)), w')"
      and u: "uuids w' = uuids ?w2 + 2 * length ds"
      and c: "collection w' = collection ?w2"
      and q: "queue w' = queue ?w2 @ bs"
      and l: "length bs = length ds div n"
      and a: "\<forall>b \<in> set bs. length b = n"
      and cc: "concat bs = take (n * (length ds div n)) (messages sv (uuids ?w2) ds)"
      by auto
    have d: "(length batch + length (d # ds)) div n = Suc (length ds div n)"
      using True n by (metis add_Suc_right add_Suc div_add_self1 length_Cons less_not_refl plus_1_eq_Suc add.commute)
    have "send_loop sv (int n) (d # ds) sent batch w
            = (Inr (sent + n * ((length batch + length (d # ds)) div n)), w')"
      using True snd r d by (simp add: Let_def)
    moreover have "queue w' = queue w @ ((batch @ [?m]) # bs)" using q by simp
    moreover have "concat ((batch @ [?m]) # bs)
        = take (n * ((length batch + length (d # ds)) div n)) (batch @ messages sv (uuids w) (d # ds))"
    proof -
      have e: "n * Suc (length ds div n) - length batch = Suc (n * (length ds div n))"
        using True by auto
      show ?thesis using cc d e by (simp add: take_Cons')
    qed
    ultimately show ?thesis using u c l a d True
      by (intro exI[of _ w'] exI[of _ "(batch @ [?m]) # bs"]) simp
  next
    case False
    with Cons.prems have lt: "length (batch @ [?m]) < n" by simp
    from Cons.IH[OF lt, of sent ?w] obtain w' bs where
      r: "send_loop sv (int n) ds sent (batch @ [?m]) ?w
            = (Inr (sent + n * ((length (batch @ [?m]) + length ds) div n)), w')"
      and u: "uuids w' = uuids ?w + 2 * length ds"
      and c: "collection w' = collection ?w"
      and q: "queue w' = queue ?w @ bs"
      and l: "length bs = (length (batch @ [?m]) + length ds) div n"
      and a: "\<forall>b \<in> set bs. length b = n"
      and cc: "concat bs = take (n * ((length (batch @ [?m]) + length ds) div n))
                 ((batch @ [?m]) @ messages sv (uuids ?w) ds)"
      by blast
    have "send_loop sv (int n) (d # ds) sent batch w
            = (Inr (sent + n * ((length batch + length (d # ds)) div n)), w')"
      using False r by (simp add: Let_def)
    then show ?thesis using u c q l a cc
      by (intro exI[of _ w'] exI[of _ bs]) simp
  qed
qed

text \<open>
  C1. With a queue that accepts every batch, \<open>sendToQueueInBatches\<close> on \<open>N\<close> documents
  and batch size \<open>B\<close> (10 when the argument is omitted) sends \<open>N div B\<close> batches of
  exactly \<open>B\<close> messages each, which are the messages of the first \<open>B * (N div B)\<close>
  documents in order, chunk after chunk; it returns that count, and the trailing
  \<open>N mod B\<close> documents are not sent.
\<close>

theorem sendToQueueInBatches_full_batches_only:
  assumes "EVENTS_QUEUE_URL sv = Some url" and "url \<noteq> []" and "\<forall>b. sqs sv b = None"
    and "B = (case batchSize of None \<Rightarrow> 10 | Some b \<Rightarrow> b)" and "0 < B"
  shows "\<exists>w' sent.
      sendToQueueInBatches sv documents batchSize w
        = (Inr (nat B * (length documents div nat B)), w')
    \<and> queue w' = queue w @ sent
    \<and> length sent = length documents div nat B
    \<and> (\<forall>b \<in> set sent. int (length b) = B)
    \<and> concat sent = take (nat B * (length documents div nat B))
                         (messages sv (uuids w) documents)
    \<and> collection w' = collection w"
proof -
  have n: "0 < nat B" and B: "int (nat B) = B" using assms(5) by simp_all
  from assms(3) have ok: "\<And>b. sqs sv b = None" by simp
  have "length ([] :: sqs_entry list) < nat B" using n by simp
  from send_loop_reliable[OF assms(1,2) ok n this, of documents 0 w]
  obtain w' bs where
    "send_loop sv (int (nat B)) documents 0 [] w
       = (Inr (nat B * (length documents div nat B)), w')"
    "collection w' = collection w" "queue w' = queue w @ bs"
    "length bs = length documents div nat B" "\<forall>b \<in> set bs. length b = nat B"
    "concat bs = take (nat B * (length documents div nat B)) (messages sv (uuids w) documents)"
    by auto
  then show ?thesis using B assms(4)
    by (intro exI[of _ w'] exI[of _ bs]) (auto simp: sendToQueueInBatches_def)
qed

theorem sendToQueueInBatches_full_batches_only_witness:
  "fst (sendToQueueInBatches demo_services (replicate 25 (movie ''573a1398f29313caabcea388'')) (Some 10) empty_world) = Inr 20
 \<and> fst (sendToQueueInBatches demo_services (replicate 7 (movie ''573a1398f29313caabcea388'')) None empty_world) = Inr 0
 \<and> fst (createInitialEmbeddings_handler demo_services (Some [(''count'', ''10'')]) seven_world)
     = Inr \<lparr>statusCode = 200,
            responseBody = Some (JSON (JObj [(''read'', JNum 7), (''sent'', JNum 0)]))\<rparr>"
proof -
  have u: "EVENTS_QUEUE_URL demo_services = Some ''https://sqs.us-east-1.amazonaws.com/1/events''"
    and s: "\<forall>b. sqs demo_services b = None"
    by (simp_all add: demo_services_def)
  have ne: "''https://sqs.us-east-1.amazonaws.com/1/events'' \<noteq> []" by simp
  have b1: "(10::int) = (case Some 10 of None \<Rightarrow> 10 | Some b \<Rightarrow> b)"
   and b2: "(10::int) = (case None of None \<Rightarrow> 10 | Some b \<Rightarrow> b)" by simp_all
  have p: "(0::int) < 10" by simp
  from sendToQueueInBatches_full_batches_only[OF u ne s b1 p,
      of "replicate 25 (movie ''573a1398f29313caabcea388'')" empty_world]
  have 1: "fst (sendToQueueInBatches demo_services (replicate 25 (movie ''573a1398f29313caabcea388'')) (Some 10) empty_world) = Inr 20"
    by auto
  from sendToQueueInBatches_full_batches_only[OF u ne s b2 p,
      of "replicate 7 (movie ''573a1398f29313caabcea388'')" empty_world]
  have 2: "fst (sendToQueueInBatches demo_services (replicate 7 (movie ''573a1398f29313caabcea388'')) None empty_world) = Inr 0"
    by auto
  have 3: "fst (createInitialEmbeddings_handler demo_services (Some [(''count'', ''10'')]) seven_world)
     = Inr \<lparr>statusCode = 200,
            responseBody = Some (JSON (JObj [(''read'', JNum 7), (''sent'', JNum 0)]))\<rparr>"
    by code_simp
  from 1 2 3 show ?thesis by simp
qed

section \<open>Properties of the candidate selection\<close>

lemma readDocuments_positive:
  assumes "fst (getMongoCollection sv w) = Inr ()" and "mongo sv = None" and "0 < n"
  shows "readDocuments sv (Finite (of_int n)) w
           = (Inr (take (nat n) (filter (matches candidates) (collection w))),
              w\<lparr>mongoClient := True,
                 calls := calls w @ [Find candidates (Finite (of_int n))]\<rparr>)"
  using assms
  by (simp add: readDocuments_def getMongoCollection_Inr find_limit_toArray_def
                limited_positive Let_def)

text \<open>
  C9. When the collection can be reached, \<open>readDocuments\<close> with a positive limit \<open>n\<close>
  returns the first \<open>n\<close> documents of the collection that have the field \<open>plot\<close> and
  lack the field \<open>plot_embedding\<close>: only such documents, never a document that has
  \<open>plot_embedding\<close> (whether it has \<open>plot\<close> or not), at most \<open>n\<close> of them, and every
  one of them when there are no more than \<open>n\<close>. The handler's limit is 50 when the
  request has no \<open>count\<close>.
\<close>

theorem readDocuments_candidates_up_to_limit:
  assumes "fst (getMongoCollection sv w) = Inr ()" and "mongo sv = None" and "0 < n"
  shows "\<exists>docs w'.
      readDocuments sv (Finite (of_int n)) w = (Inr docs, w')
    \<and> docs = take (nat n) (filter (\<lambda>d. has_field d ''plot'' \<and> \<not> has_field d ''plot_embedding'')
                               (collection w))
    \<and> (\<forall>d \<in> set docs. d \<in> set (collection w) \<and> has_field d ''plot''
                          \<and> \<not> has_field d ''plot_embedding'')
    \<and> (\<forall>d \<in> set (collection w). has_field d ''plot_embedding'' \<longrightarrow> d \<notin> set docs)
    \<and> int (length docs) \<le> n
    \<and> (int (length (filter (\<lambda>d. has_field d ''plot'' \<and> \<not> has_field d ''plot_embedding'')
                        (collection w))) \<le> n
         \<longrightarrow> (\<forall>d \<in> set (collection w).
                has_field d ''plot'' \<and> \<not> has_field d ''plot_embedding'' \<longrightarrow> d \<in> set docs))
    \<and> collection w' = collection w
    \<and> limit_argument None = Finite 50"
proof -
  let ?c = "\<lambda>d. has_field d ''plot'' \<and> \<not> has_field d ''plot_embedding''"
  let ?docs = "take (nat n) (filter ?c (collection w))"
  let ?w = "w\<lparr>mongoClient := True,
                 calls := calls w @ [Find candidates (Finite (of_int n))]\<rparr>"
  have m: "matches candidates = ?c" by (rule ext) (simp add: matches_candidates)
  have r: "readDocuments sv (Finite (of_int n)) w = (Inr ?docs, ?w)"
    using readDocuments_positive[OF assms] by (simp only: m)
  have 1: "\<forall>d \<in> set ?docs. d \<in> set (collection w) \<and> has_field d ''plot''
                          \<and> \<not> has_field d ''plot_embedding''"
  proof
    fix d assume "d \<in> set ?docs"
    then have "d \<in> set (filter ?c (collection w))" by (rule in_set_takeD)
    then show "d \<in> set (collection w) \<and> has_field d ''plot'' \<and> \<not> has_field d ''plot_embedding''"
      by simp
  qed
  have 2: "\<forall>d \<in> set (collection w). has_field d ''plot_embedding'' \<longrightarrow> d \<notin> set ?docs"
    using 1 by blast
  have 3: "int (length ?docs) \<le> n" using assms(3) by simp
  have 4: "int (length (filter ?c (collection w))) \<le> n
         \<longrightarrow> (\<forall>d \<in> set (collection w).
                has_field d ''plot'' \<and> \<not> has_field d ''plot_embedding'' \<longrightarrow> d \<in> set ?docs)"
  proof
    assume "int (length (filter ?c (collection w))) \<le> n"
    then have "?docs = filter ?c (collection w)" by simp
    then show "\<forall>d \<in> set (collection w).
       has_field d ''plot'' \<and> \<not> has_field d ''plot_embedding'' \<longrightarrow> d \<in> set ?docs"
      by simp
  qed
  have 5: "limit_argument None = Finite 50" by (simp add: limit_argument_def)
  have 6: "collection ?w = collection w" by simp
  from r 1 2 3 4 5 6 show ?thesis by blast
qed

lemma demo_connects: "fst (getMongoCollection demo_services demo_world) = Inr ()"
  by (simp add: getMongoCollection_def getStringFromEnv_def demo_services_def demo_world_def)

theorem readDocuments_candidates_up_to_limit_witness:
  "fst (readDocuments demo_services (Finite 1) demo_world) = Inr [movie ''573a1398f29313caabcea388'']
 \<and> fst (readDocuments demo_services (Finite 50) demo_world)
      = Inr [movie ''573a1398f29313caabcea388'', movie ''573a1390f29313caabcd4135'']"
proof -
  have m: "mongo demo_services = None" by (simp add: demo_services_def)
  have c: "filter (\<lambda>d. has_field d ''plot'' \<and> \<not> has_field d ''plot_embedding'') (collection demo_world)
             = [movie ''573a1398f29313caabcea388'', movie ''573a1390f29313caabcd4135'']"
    by (simp add: demo_world_def has_field_def movie_def embedded_movie_def untold_movie_def)
  from readDocuments_candidates_up_to_limit[OF demo_connects m, of 1]
  have 1: "fst (readDocuments demo_services (Finite 1) demo_world) = Inr [movie ''573a1398f29313caabcea388'']"
    by (auto simp: c)
  from readDocuments_candidates_up_to_limit[OF demo_connects m, of 50]
  have 2: "fst (readDocuments demo_services (Finite 50) demo_world)
      = Inr [movie ''573a1398f29313caabcea388'', movie ''573a1390f29313caabcd4135'']"
    by (auto simp: c)
  from 1 2 show ?thesis by simp
qed


section \<open>Properties of the backfill handler\<close>









section \<open>Facts about the batch consumer\<close>

lemma lookup_filter_other:
  "lookup (filter (\<lambda>(k', x). k' \<noteq> k) kvs) k = None"
  by (induction kvs) auto

lemma lookup_zip_decimal_aux:
  "k \<notin> set ks \<Longrightarrow> lookup (zip ks xs) k = None"
proof (induction ks arbitrary: xs)
  case Nil show ?case by simp
next
  case (Cons a ks) then show ?case by (cases xs) auto
qed

lemma decimal_digits: "c \<in> set (decimal n) \<Longrightarrow> 48 \<le> (of_char c :: nat) \<and> (of_char c :: nat) \<le> 57"
proof (induction n arbitrary: c rule: decimal.induct)
  case (1 n)
  show ?case
  proof (cases "n < 10")
    case True
    with "1.prems" have "c = char_of (48 + n)" by (simp add: decimal.simps[of n])
    then show ?thesis using True by (simp)
  next
    case False
    with "1.prems" have "c \<in> set (decimal (n div 10)) \<or> c = char_of (48 + n mod 10)"
      by (auto simp add: decimal.simps[of n])
    then show ?thesis
    proof
      assume "c \<in> set (decimal (n div 10))"
      with "1.IH"[OF False] show ?thesis by blast
    next
      assume c: "c = char_of (48 + n mod 10)"
      have "n mod 10 < 10" by simp
      then show ?thesis unfolding c by simp
    qed
  qed
qed

lemma decimal_not_id: "decimal n \<noteq> ''_id''"
proof
  assume "decimal n = ''_id''"
  then have "CHR ''_'' \<in> set (decimal n)" by simp
  from decimal_digits[OF this] show False by simp
qed

lemma rest_without_id: "lookup (rest_without v ''_id'') ''_id'' = None"
proof (cases v)
  case (JSObject kvs)
  then show ?thesis by (simp add: rest_without_def lookup_filter_other)
next
  case (JSArray xs)
  have "''_id'' \<notin> set (map decimal [0..<length xs])" using decimal_not_id by (metis (no_types, lifting) imageE list.set_map)
  then show ?thesis using JSArray by (simp add: rest_without_def lookup_zip_decimal_aux)
next
  case (JSString s)
  have "''_id'' \<notin> set (map decimal [0..<length s])" using decimal_not_id by (metis (no_types, lifting) imageE list.set_map)
  then show ?thesis using JSString by (simp add: rest_without_def lookup_zip_decimal_aux)
qed (simp_all add: rest_without_def)

lemma lookup_obj_set:
  "lookup (obj_set kvs k v) k' = (if k' = k then Some v else lookup kvs k')"
  by (induction kvs) auto

lemma lookup_serialize: "lookup (serialize d) k = map_option toBSON (lookup d k)"
  by (induction d) (auto simp: serialize_def)

lemma destructure_no_id:
  "destructure payload = Inr (i, document) \<Longrightarrow> lookup document ''_id'' = None"
  by (auto simp: destructure_def Let_def rest_without_id split: if_splits)

lemma matches_id: "matches [(''_id'', Equals oid)] d = (lookup d ''_id'' = Some oid)"
  by (simp add: matches_def)

lemma lookup_append:
  "lookup (a @ b) k = (case lookup a k of None \<Rightarrow> lookup b k | Some v \<Rightarrow> Some v)"
  by (induction a) auto

lemma lookup_filter_same: "lookup (filter (\<lambda>(k', x). k' = k) kvs) k = lookup kvs k"
  by (induction kvs) auto


lemma lookup_kept_id:
  "lookup d ''_id'' = Some oid \<Longrightarrow> lookup (filter (\<lambda>(k, x). k = ''_id'') d @ r) ''_id'' = Some oid"
  by (simp add: lookup_append lookup_filter_same)


lemma replaceFirst_ids:
  assumes "lookup r ''_id'' = None"
  shows "map (\<lambda>d. lookup d ''_id'') (snd (replaceFirst [(''_id'', Equals oid)] r coll))
           = map (\<lambda>d. lookup d ''_id'') coll"
proof (induction coll)
  case Nil show ?case by simp
next
  case (Cons d ds)
  show ?case
  proof (cases "lookup d ''_id'' = Some oid")
    case True
    then have "d \<noteq> r" using assms by auto
    then show ?thesis using True assms by (simp add: matches_id lookup_kept_id)
  next
    case False
    then show ?thesis using Cons.IH
      by (cases "replaceFirst [(''_id'', Equals oid)] r ds") (auto simp: matches_id)
  qed
qed


lemma getMongoCollection_cases:
  obtains e where "getMongoCollection sv w = (Inl e, w)" "reachable sv w = Inl e"
  | "getMongoCollection sv w = (Inr (), w\<lparr>mongoClient := True\<rparr>)" "reachable sv w = Inr ()"
proof (cases "fst (getMongoCollection sv w)")
  case (Inl e)
  then show ?thesis using that(1)[of e]
    by (auto simp: reachable_def getMongoCollection_def split: if_splits sum.splits option.splits)
next
  case (Inr u)
  then have f: "fst (getMongoCollection sv w) = Inr ()" by simp
  have "getMongoCollection sv w = (Inr (), w\<lparr>mongoClient := True\<rparr>)"
    using f by (cases w) (auto simp: getMongoCollection_def split: if_splits sum.splits option.splits)
  then show ?thesis using that(2) f by (simp add: reachable_def)
qed

lemma reachable_connected [simp]: "reachable sv (w\<lparr>mongoClient := True\<rparr>) = Inr ()"
  by (simp add: reachable_def getMongoCollection_def)

lemma reachable_calls [simp]: "reachable sv (w\<lparr>calls := c\<rparr>) = reachable sv w"
  by (simp add: reachable_def getMongoCollection_def split: sum.splits option.splits)

lemma reachable_collection [simp]: "reachable sv (w\<lparr>collection := c\<rparr>) = reachable sv w"
  by (simp add: reachable_def getMongoCollection_def split: sum.splits option.splits)

lemma stored_ids_simps [simp]:
  "stored_ids (w\<lparr>mongoClient := b\<rparr>) = stored_ids w"
  "stored_ids (w\<lparr>calls := c\<rparr>) = stored_ids w"
  by (simp_all add: stored_ids_def)

lemma createEmbedding_snd:
  "snd (createEmbedding sv x w)
     = w\<lparr>calls := calls w @ [InvokeModel (JSON_stringify (JSObject [(''inputText'', x)]))]\<rparr>"
  by (simp add: createEmbedding_def Let_def split: sum.splits option.splits prod.splits)


lemma replaceOne_unfold:
  "replaceOne sv q r w =
     (case mongo sv of
        Some e \<Rightarrow> (Inl e, w\<lparr>calls := calls w @ [ReplaceOne q r]\<rparr>)
      | None \<Rightarrow> (fst (replaceFirst q (serialize r) (collection w)),
                 w\<lparr>calls := calls w @ [ReplaceOne q r],
                   collection := snd (replaceFirst q (serialize r) (collection w))\<rparr>))"
  by (simp add: replaceOne_def Let_def split: option.splits prod.splits)

lemma serialize_no_id: "lookup doc ''_id'' = None \<Longrightarrow> lookup (serialize doc) ''_id'' = None"
  by (simp add: lookup_serialize)


lemma replaceOne_ids:
  assumes "lookup doc ''_id'' = None"
  shows "stored_ids (snd (replaceOne sv [(''_id'', Equals oid)] doc w)) = stored_ids w"
  using replaceFirst_ids[OF serialize_no_id[OF assms], of oid "collection w"]
  by (simp add: replaceOne_unfold stored_ids_def split: option.splits)

lemma replaceOne_reachable:
  "reachable sv (snd (replaceOne sv q doc w)) = reachable sv w"
  by (simp add: replaceOne_unfold split: option.splits)


lemma writeEmbedding_ids:
  assumes "lookup doc ''_id'' = None"
  shows "stored_ids (snd (writeEmbedding sv i doc w)) = stored_ids w"
proof (cases rule: getMongoCollection_cases[of sv w])
  case (1 e)
  then show ?thesis by (simp add: writeEmbedding_def)
next
  case 2
  show ?thesis
  proof (cases "ObjectId sv i")
    case (Inl e)
    then show ?thesis using 2 by (simp add: writeEmbedding_def)
  next
    case (Inr oid)
    let ?w = "w\<lparr>mongoClient := True\<rparr>"
    obtain res w2 where r: "replaceOne sv [(''_id'', Equals oid)] doc ?w = (res, w2)" by force
    from replaceOne_ids[OF assms, of sv oid ?w] r have "stored_ids w2 = stored_ids w" by simp
    then show ?thesis using 2 Inr r
      by (cases res) (simp_all add: writeEmbedding_def)
  qed
qed

lemma writeEmbedding_reachable:
  "reachable sv (snd (writeEmbedding sv i doc w)) = reachable sv w"
proof (cases rule: getMongoCollection_cases[of sv w])
  case (1 e)
  then show ?thesis by (simp add: writeEmbedding_def)
next
  case 2
  show ?thesis
  proof (cases "ObjectId sv i")
    case (Inl e)
    then show ?thesis using 2 by (simp add: writeEmbedding_def)
  next
    case (Inr oid)
    let ?w = "w\<lparr>mongoClient := True\<rparr>"
    obtain res w2 where r: "replaceOne sv [(''_id'', Equals oid)] doc ?w = (res, w2)" by force
    from replaceOne_reachable[of sv "[(''_id'', Equals oid)]" doc ?w] r
    have "reachable sv w2 = Inr ()" by simp
    then show ?thesis using 2 Inr r
      by (cases res) (simp_all add: writeEmbedding_def)
  qed
qed

text \<open>The record handler, with the result and the state of each of its two calls apart.\<close>

lemma recordHandler_unfold:
  "recordHandler sv r t w =
     (if t < 1000 then (Inl (Error ''Time is about to expire, stopping processing''), w)
      else case JSON_parse (body r) of
             Inl e \<Rightarrow> (Inl (ErrorWithCause ''Unable to parse SQS record'' e), w)
           | Inr payload \<Rightarrow>
               (case destructure payload of
                  Inl e \<Rightarrow> (Inl e, w)
                | Inr (i, document) \<Rightarrow>
                    (case fst (createEmbedding sv (property (JSObject document) ''plot'') w) of
                       Inl e \<Rightarrow> (Inl (ErrorWithCause ''Unble to create embedding'' e),
                                 snd (createEmbedding sv (property (JSObject document) ''plot'') w))
                     | Inr embedding \<Rightarrow>
                         (case fst (writeEmbedding sv i (obj_set document ''plot_embedding'' embedding)
                                     (snd (createEmbedding sv (property (JSObject document) ''plot'') w))) of
                            Inl e \<Rightarrow> (Inl (ErrorWithCause ''Unable to write embedding'' e),
                                      snd (writeEmbedding sv i (obj_set document ''plot_embedding'' embedding)
                                     (snd (createEmbedding sv (property (JSObject document) ''plot'') w))))
                          | Inr u \<Rightarrow> (Inr (),
                               snd (writeEmbedding sv i (obj_set document ''plot_embedding'' embedding)
                                     (snd (createEmbedding sv (property (JSObject document) ''plot'') w))))))))"
  by (simp add: recordHandler_def split: sum.splits prod.splits)

lemma document_no_id:
  "destructure payload = Inr (i, document) \<Longrightarrow>
   lookup (obj_set document ''plot_embedding'' embedding) ''_id'' = None"
  by (simp add: lookup_obj_set destructure_no_id)


lemma recordHandler_preserves:
  "stored_ids (snd (recordHandler sv r t w)) = stored_ids w
 \<and> reachable sv (snd (recordHandler sv r t w)) = reachable sv w"
proof -
  have c: "\<And>x. stored_ids (snd (createEmbedding sv x w)) = stored_ids w
              \<and> reachable sv (snd (createEmbedding sv x w)) = reachable sv w"
    by (simp add: createEmbedding_snd)
  have wr: "\<And>i doc x. lookup doc ''_id'' = None \<Longrightarrow>
      stored_ids (snd (writeEmbedding sv i doc (snd (createEmbedding sv x w)))) = stored_ids w
    \<and> reachable sv (snd (writeEmbedding sv i doc (snd (createEmbedding sv x w)))) = reachable sv w"
    using c by (simp add: writeEmbedding_ids writeEmbedding_reachable)
  show ?thesis
    unfolding recordHandler_unfold[of sv r t w]
    using c wr document_no_id
    by (auto split: sum.splits prod.splits)
qed

lemma process_snd_view:
  "stored_ids (snd (process sv remaining i rs w)) = stored_ids w
 \<and> reachable sv (snd (process sv remaining i rs w)) = reachable sv w"
proof (induction rs arbitrary: i w)
  case Nil show ?case by simp
next
  case (Cons r rs)
  obtain res w1 where h: "recordHandler sv r (remaining i) w = (res, w1)" by force
  obtain out w2 where p: "process sv remaining (Suc i) rs w1 = (out, w2)" by force
  from recordHandler_preserves[of sv r "remaining i" w] h
  have "stored_ids w1 = stored_ids w" "reachable sv w1 = reachable sv w" by simp_all
  moreover from Cons.IH[of "Suc i" w1] p
  have "stored_ids w2 = stored_ids w1" "reachable sv w2 = reachable sv w1" by simp_all
  ultimately show ?case using h p by simp
qed







section \<open>Properties of the batch consumer\<close>




text \<open>
  C4. A record handled with less than 1000 ms remaining fails at once with the error
  of the time guard, and the state is unchanged: no call to the embedding model or
  to the store is made, and the outcome is the same whatever the body of the record
  is, a body that cannot be parsed included.
\<close>

theorem recordHandler_time_budget_guard:
  assumes "remainingTimeInMillis < 1000"
  shows "recordHandler sv record remainingTimeInMillis w
           = (Inl (Error ''Time is about to expire, stopping processing''), w)"
  using assms by (simp add: recordHandler_def)

theorem recordHandler_time_budget_guard_witness:
  "recordHandler demo_services \<lparr>messageId = ''m4'', body = NotJSON ''{''\<rparr> 999 demo_world
     = (Inl (Error ''Time is about to expire, stopping processing''), demo_world)
 \<and> recordHandler demo_services (hd demo_records) 999 demo_world
     = (Inl (Error ''Time is about to expire, stopping processing''), demo_world)"
proof -
  have l: "(999::int) < 1000" by simp
  show ?thesis
    using recordHandler_time_budget_guard[OF l, of demo_services "\<lparr>messageId = ''m4'', body = NotJSON ''{''\<rparr>" demo_world]
          recordHandler_time_budget_guard[OF l, of demo_services "hd demo_records" demo_world]
    by simp
qed



section \<open>Facts about JSON texts\<close>





lemma lookup_in_set: "lookup kvs k = Some v \<Longrightarrow> (k, v) \<in> set kvs"
  by (induction kvs) (auto split: if_splits)






section \<open>Properties of the queue message\<close>





section \<open>Facts about the vector query service\<close>


























section \<open>Properties of the vector query service\<close>











end
